theory Spec2Isabelle
  imports Main
begin

section \<open>Python values, classes and exceptions\<close>

text \<open>
  The module \<^verbatim>\<open>uplink/converters/marshmallow_.py\<close> is dynamically typed glue code: it
  inspects an arbitrary Python object with \<^verbatim>\<open>inspect.isclass\<close>, \<^verbatim>\<open>issubclass\<close> and
  \<^verbatim>\<open>isinstance\<close>, calls it, and delegates to methods of objects it does not define.
  The embedding therefore starts with a small universe of Python values.

  A class is its qualified name together with the rest of its method resolution order
  (all proper ancestors, already linearised). \<^verbatim>\<open>issubclass(c, d)\<close> is membership of
  \<open>d\<close> in the MRO of \<open>c\<close>; metaclass hooks (\<^verbatim>\<open>__subclasscheck__\<close>, ABC registration)
  are not modelled.
\<close>

datatype pyclass = PyClass (cls_name: string) (cls_ancestors: "pyclass list")

datatype pyval =
    PyNone
  | PyBool bool
  | PyInt int
  | PyStr string
  | PyList "pyval list"
  | PyTuple "pyval list"
  | PyDict "(pyval \<times> pyval) list"
  | PyType pyclass
  | PyObject pyclass "(string \<times> pyval) list"
  | PyMethod pyval string

text \<open>
  \<open>PyType c\<close> is the class object \<open>c\<close> itself; \<open>PyObject c attrs\<close> is an instance of
  \<open>c\<close> with its instance attributes; \<open>PyMethod self name\<close> is the bound method
  \<^verbatim>\<open>self.name\<close>.
\<close>

definition object_cls :: pyclass where
  "object_cls = PyClass ''object'' []"

definition type_cls :: pyclass where
  "type_cls = PyClass ''type'' [object_cls]"

definition NoneType_cls :: pyclass where
  "NoneType_cls = PyClass ''NoneType'' [object_cls]"

definition int_cls :: pyclass where
  "int_cls = PyClass ''int'' [object_cls]"

definition bool_cls :: pyclass where
  "bool_cls = PyClass ''bool'' [int_cls, object_cls]"

definition str_cls :: pyclass where
  "str_cls = PyClass ''str'' [object_cls]"

definition list_cls :: pyclass where
  "list_cls = PyClass ''list'' [object_cls]"

definition tuple_cls :: pyclass where
  "tuple_cls = PyClass ''tuple'' [object_cls]"

definition dict_cls :: pyclass where
  "dict_cls = PyClass ''dict'' [object_cls]"

definition method_cls :: pyclass where
  "method_cls = PyClass ''method'' [object_cls]"

definition BaseException_cls :: pyclass where
  "BaseException_cls = PyClass ''BaseException'' [object_cls]"

definition Exception_cls :: pyclass where
  "Exception_cls = PyClass ''Exception'' [BaseException_cls, object_cls]"

definition ValueError_cls :: pyclass where
  "ValueError_cls = PyClass ''ValueError'' [Exception_cls, BaseException_cls, object_cls]"

definition ImportError_cls :: pyclass where
  "ImportError_cls = PyClass ''ImportError'' [Exception_cls, BaseException_cls, object_cls]"

definition AttributeError_cls :: pyclass where
  "AttributeError_cls = PyClass ''AttributeError'' [Exception_cls, BaseException_cls, object_cls]"

definition TypeError_cls :: pyclass where
  "TypeError_cls = PyClass ''TypeError'' [Exception_cls, BaseException_cls, object_cls]"

definition new_exception :: "pyclass \<Rightarrow> string \<Rightarrow> pyval" where
  "new_exception c msg = PyObject c [(''args'', PyTuple [PyStr msg])]"

definition ValueError :: "string \<Rightarrow> pyval" where
  "ValueError msg = new_exception ValueError_cls msg"

definition ImportError :: "string \<Rightarrow> pyval" where
  "ImportError msg = new_exception ImportError_cls msg"

definition AttributeError :: "string \<Rightarrow> pyval" where
  "AttributeError msg = new_exception AttributeError_cls msg"

definition TypeError :: "string \<Rightarrow> pyval" where
  "TypeError msg = new_exception TypeError_cls msg"

fun type_of :: "pyval \<Rightarrow> pyclass" where
  "type_of PyNone = NoneType_cls"
| "type_of (PyBool b) = bool_cls"
| "type_of (PyInt i) = int_cls"
| "type_of (PyStr s) = str_cls"
| "type_of (PyList xs) = list_cls"
| "type_of (PyTuple xs) = tuple_cls"
| "type_of (PyDict kvs) = dict_cls"
| "type_of (PyType c) = type_cls"
| "type_of (PyObject c attrs) = c"
| "type_of (PyMethod self name) = method_cls"

definition issubclass :: "pyclass \<Rightarrow> pyclass \<Rightarrow> bool" where
  "issubclass c d = (d \<in> set (c # cls_ancestors c))"

definition py_isinstance :: "pyval \<Rightarrow> pyclass \<Rightarrow> bool" where
  "py_isinstance x d = issubclass (type_of x) d"

text \<open>\<^verbatim>\<open>inspect.isclass(x)\<close> is \<^verbatim>\<open>isinstance(x, type)\<close>.\<close>

fun isclass :: "pyval \<Rightarrow> bool" where
  "isclass (PyType c) = True"
| "isclass x = False"

subsection \<open>Raising, sequencing and the state of foreign code\<close>

text \<open>
  A Python expression either yields a value or raises an exception object, and the code
  it calls may change state that the module never sees (a constructor that counts its
  instances, a response that consumes its stream). A computation therefore takes the
  state \<open>'w\<close> of the world outside the module and returns the outcome, \<open>Inl\<close> the raised
  exception, together with the new state.
\<close>

type_synonym ('w, 'a) py = "'w \<Rightarrow> (pyval + 'a) \<times> 'w"

definition py_return :: "'a \<Rightarrow> ('w, 'a) py" where
  "py_return x w = (Inr x, w)"

definition py_raise :: "pyval \<Rightarrow> ('w, 'a) py" where
  "py_raise e w = (Inl e, w)"

definition py_bind :: "('w, 'a) py \<Rightarrow> ('a \<Rightarrow> ('w, 'b) py) \<Rightarrow> ('w, 'b) py" where
  "py_bind m f w =
     (case m w of
        (Inl e, w') \<Rightarrow> (Inl e, w')
      | (Inr x, w') \<Rightarrow> f x w')"

text \<open>\<^verbatim>\<open>a and b\<close>: \<open>b\<close> is evaluated only when \<open>a\<close> is true.\<close>

definition py_and :: "('w, bool) py \<Rightarrow> ('w, bool) py \<Rightarrow> ('w, bool) py" where
  "py_and a b = py_bind a (\<lambda>x. if x then b else py_return False)"

text \<open>
  \<^verbatim>\<open>try: body / except cls: handler / else: orelse\<close>. Only an exception that is an
  instance of \<open>cls\<close> is handled; the \<^verbatim>\<open>else\<close> block runs outside the handler.
\<close>

definition try_except_else ::
  "('w, 'a) py \<Rightarrow> pyclass \<Rightarrow> ('w, 'b) py \<Rightarrow> ('a \<Rightarrow> ('w, 'b) py) \<Rightarrow> ('w, 'b) py" where
  "try_except_else body cls handler orelse w =
     (case body w of
        (Inl e, w') \<Rightarrow> if py_isinstance e cls then handler w' else (Inl e, w')
      | (Inr x, w') \<Rightarrow> orelse x w')"

text \<open>The builtin \<^verbatim>\<open>issubclass\<close> raises \<^verbatim>\<open>TypeError\<close> when its first argument is not a class.\<close>

definition py_issubclass :: "pyval \<Rightarrow> pyclass \<Rightarrow> ('w, bool) py" where
  "py_issubclass x d =
     (case x of
        PyType c \<Rightarrow> py_return (issubclass c d)
      | _ \<Rightarrow> py_raise (TypeError ''issubclass() arg 1 must be a class''))"

subsection \<open>Code outside the module\<close>

text \<open>
  Everything the module calls but does not define is a parameter of the model: attribute
  lookup on foreign objects and calls of foreign callables, each reading and changing the
  outside state. Calling a class is a call like any other: what \<^verbatim>\<open>type_()\<close> returns is
  whatever the class's \<^verbatim>\<open>__new__\<close> and \<^verbatim>\<open>__init__\<close> produce, which need not be an
  instance of the class and need not be the same on every call.
\<close>

record 'w extern =
  ext_getattr :: "pyval \<Rightarrow> string \<Rightarrow> ('w, pyval) py"
  ext_call :: "pyval \<Rightarrow> pyval list \<Rightarrow> ('w, pyval) py"

text \<open>An instance attribute is read from the object; any other lookup is foreign code.\<close>

definition py_getattr :: "'w extern \<Rightarrow> pyval \<Rightarrow> string \<Rightarrow> ('w, pyval) py" where
  "py_getattr env obj name =
     (case obj of
        PyObject c attrs \<Rightarrow>
          (case map_of attrs name of
             Some v \<Rightarrow> py_return v
           | None \<Rightarrow> ext_getattr env obj name)
      | _ \<Rightarrow> ext_getattr env obj name)"

definition py_call :: "'w extern \<Rightarrow> pyval \<Rightarrow> pyval list \<Rightarrow> ('w, pyval) py" where
  "py_call env f args = ext_call env f args"

text \<open>
  A method call \<^verbatim>\<open>obj.name(args)\<close>: Python looks the callee up first, then evaluates
  the arguments, then calls.
\<close>

definition py_call_method ::
  "'w extern \<Rightarrow> pyval \<Rightarrow> string \<Rightarrow> ('w, pyval list) py \<Rightarrow> ('w, pyval) py" where
  "py_call_method env obj name args =
     py_bind (py_getattr env obj name) (\<lambda>f.
     py_bind args (\<lambda>xs. py_call env f xs))"

section \<open>The converter factory\<close>

text \<open>
  The module object \<^verbatim>\<open>marshmallow\<close> is used only for its attribute \<^verbatim>\<open>Schema\<close>. The class
  attribute \<^verbatim>\<open>MarshmallowConverter.marshmallow\<close> holds the module, or \<^verbatim>\<open>None\<close> when the
  import failed.
\<close>

record marshmallow_module =
  Schema :: pyclass

record MarshmallowConverter =
  marshmallow :: "marshmallow_module option"

text \<open>
  The class body: \<^verbatim>\<open>try: import marshmallow / except ImportError: marshmallow = None\<close>.
  The argument is the import statement, which yields the module or raises.
\<close>

definition class_body :: "('w, marshmallow_module) py \<Rightarrow> ('w, MarshmallowConverter) py" where
  "class_body import_marshmallow =
     try_except_else import_marshmallow ImportError_cls
       (py_return \<lparr>marshmallow = None\<rparr>)
       (\<lambda>m. py_return \<lparr>marshmallow = Some m\<rparr>)"

text \<open>
  \<^verbatim>\<open>__init__\<close> raises \<^verbatim>\<open>ImportError("No module named 'marshmallow'")\<close> when the class
  attribute is \<^verbatim>\<open>None\<close>; \<open>new_MarshmallowConverter\<close> is the instantiation
  \<^verbatim>\<open>MarshmallowConverter()\<close> that runs it. An instance has no fields of its own, so it
  is represented by the class record it reads \<^verbatim>\<open>self.marshmallow\<close> from.
\<close>

definition init :: "MarshmallowConverter \<Rightarrow> ('w, unit) py" where
  "init self =
     (if marshmallow self = None
      then py_raise (ImportError (''No module named 'marshmallow'' @ [CHR 0x27]))
      else py_return ())"

definition new_MarshmallowConverter :: "MarshmallowConverter \<Rightarrow> ('w, MarshmallowConverter) py" where
  "new_MarshmallowConverter cls = py_bind (init cls) (\<lambda>_. py_return cls)"

text \<open>The two converter classes; each stores the schema it is given in \<^verbatim>\<open>_schema\<close>.\<close>

datatype converter =
    ResponseBodyConverter (schema: pyval)
  | RequestBodyConverter (schema: pyval)

text \<open>
  \<^verbatim>\<open>convert\<close>, dispatched on the converter's class:
  \<^verbatim>\<open>self._schema.load(response.json()).data\<close> and \<^verbatim>\<open>self._schema.dump(value).data\<close>.
\<close>

fun convert :: "'w extern \<Rightarrow> converter \<Rightarrow> pyval \<Rightarrow> ('w, pyval) py" where
  "convert env (ResponseBodyConverter s) response =
     py_bind
       (py_call_method env s ''load''
          (py_bind (py_call_method env response ''json'' (py_return []))
             (\<lambda>body. py_return [body])))
       (\<lambda>result. py_getattr env result ''data'')"
| "convert env (RequestBodyConverter s) v =
     py_bind (py_call_method env s ''dump'' (py_return [v]))
       (\<lambda>result. py_getattr env result ''data'')"

text \<open>
  The attribute chain \<^verbatim>\<open>cls.marshmallow.Schema\<close>; \<^verbatim>\<open>None\<close> has no attribute \<^verbatim>\<open>Schema\<close>,
  so the access raises \<^verbatim>\<open>AttributeError\<close> when the import had failed.
\<close>

definition marshmallow_Schema :: "MarshmallowConverter \<Rightarrow> ('w, pyclass) py" where
  "marshmallow_Schema cls =
     (case marshmallow cls of
        None \<Rightarrow>
          py_raise (AttributeError
            (CHR 0x27 # ''NoneType' object has no attribute 'Schema'' @ [CHR 0x27]))
      | Some m \<Rightarrow> py_return (Schema m))"

text \<open>
  \<^verbatim>\<open>
  @classmethod
  def _get_schema(cls, type_):
      if inspect.isclass(type_) and issubclass(type_, cls.marshmallow.Schema):
          return type_()
      elif isinstance(type_, cls.marshmallow.Schema):
          return type_
      raise ValueError("Expected marshmallow.Scheme subclass or instance.")
  \<close>
  The arguments of \<^verbatim>\<open>issubclass\<close> are evaluated before the call, and only when
  \<^verbatim>\<open>inspect.isclass(type_)\<close> holds. The result of \<^verbatim>\<open>type_()\<close> is returned as it is.
\<close>

definition get_schema :: "'w extern \<Rightarrow> MarshmallowConverter \<Rightarrow> pyval \<Rightarrow> ('w, pyval) py" where
  "get_schema env cls type' =
     py_bind
       (py_and (py_return (isclass type'))
               (py_bind (marshmallow_Schema cls) (py_issubclass type')))
       (\<lambda>is_schema_class.
          if is_schema_class then py_call env type' []
          else
            py_bind (marshmallow_Schema cls) (\<lambda>base.
              if py_isinstance type' base then py_return type'
              else py_raise
                (ValueError ''Expected marshmallow.Scheme subclass or instance.'')))"

text \<open>
  \<^verbatim>\<open>
  def _make_converter(self, converter_cls, type_):
      try:
          schema = self._get_schema(type_)
      except ValueError:
          return None
      else:
          return converter_cls(schema)
  \<close>
  \<open>converter_cls\<close> is one of the two converter classes, that is, a constructor.
\<close>

definition make_converter ::
  "'w extern \<Rightarrow> MarshmallowConverter \<Rightarrow> (pyval \<Rightarrow> converter) \<Rightarrow> pyval
     \<Rightarrow> ('w, converter option) py" where
  "make_converter env self converter_cls type' =
     try_except_else (get_schema env self type') ValueError_cls
       (py_return None)
       (\<lambda>schema. py_return (Some (converter_cls schema)))"

text \<open>
  The three factory methods. \<open>args\<close> and \<open>kwargs\<close> are the extra positional and keyword
  arguments, which the bodies never read.
\<close>

definition make_request_body_converter ::
  "'w extern \<Rightarrow> MarshmallowConverter \<Rightarrow> pyval \<Rightarrow> pyval list \<Rightarrow> (string \<times> pyval) list
     \<Rightarrow> ('w, converter option) py" where
  "make_request_body_converter env self type' args kwargs =
     make_converter env self RequestBodyConverter type'"

definition make_response_body_converter ::
  "'w extern \<Rightarrow> MarshmallowConverter \<Rightarrow> pyval \<Rightarrow> pyval list \<Rightarrow> (string \<times> pyval) list
     \<Rightarrow> ('w, converter option) py" where
  "make_response_body_converter env self type' args kwargs =
     make_converter env self ResponseBodyConverter type'"

definition make_string_converter ::
  "'w extern \<Rightarrow> MarshmallowConverter \<Rightarrow> pyval \<Rightarrow> pyval list \<Rightarrow> (string \<times> pyval) list
     \<Rightarrow> ('w, converter option) py" where
  "make_string_converter env self type' args kwargs = py_return None"

section \<open>The schema library and a sample environment\<close>

text \<open>
  The library's \<^verbatim>\<open>dump\<close> and \<^verbatim>\<open>load\<close> return a pair of the data and the errors whose
  first component is read as \<^verbatim>\<open>.data\<close> (marshmallow 2's \<^verbatim>\<open>MarshalResult\<close> and
  \<^verbatim>\<open>UnmarshalResult\<close> named tuples).
\<close>

definition MarshalResult_cls :: pyclass where
  "MarshalResult_cls = PyClass ''marshmallow.schema.MarshalResult'' [tuple_cls, object_cls]"

definition MarshalResult :: "pyval \<Rightarrow> pyval \<Rightarrow> pyval" where
  "MarshalResult data errors =
     PyObject MarshalResult_cls [(''data'', data), (''errors'', errors)]"

definition UnmarshalResult_cls :: pyclass where
  "UnmarshalResult_cls = PyClass ''marshmallow.schema.UnmarshalResult'' [tuple_cls, object_cls]"

definition UnmarshalResult :: "pyval \<Rightarrow> pyval \<Rightarrow> pyval" where
  "UnmarshalResult data errors =
     PyObject UnmarshalResult_cls [(''data'', data), (''errors'', errors)]"

text \<open>
  The library's own round trip on an object, \<^verbatim>\<open>s.load(s.dump(obj).data).data\<close>: the
  load is a left inverse of the dump on \<open>obj\<close> when this yields \<open>obj\<close>.
\<close>

definition load_after_dump :: "'w extern \<Rightarrow> pyval \<Rightarrow> pyval \<Rightarrow> ('w, pyval) py" where
  "load_after_dump env s obj =
     py_bind (py_call_method env s ''dump'' (py_return [obj])) (\<lambda>dumped.
     py_bind (py_getattr env dumped ''data'') (\<lambda>raw.
     py_bind (py_call_method env s ''load'' (py_return [raw])) (\<lambda>loaded.
     py_getattr env loaded ''data'')))"

text \<open>
  A sample environment whose outside state is the number of serial numbers handed out so
  far. Its classes: the base class \<^verbatim>\<open>marshmallow.Schema\<close>; a schema class
  \<^verbatim>\<open>UserSchema\<close> over the fields of a \<^verbatim>\<open>User\<close>; a schema class whose constructor needs
  an argument; a schema class whose constructor stamps each instance with the next serial
  number; a schema class whose \<^verbatim>\<open>__new__\<close> returns the integer 3; and a response class
  whose \<^verbatim>\<open>json()\<close> returns the stored body. A schema's \<^verbatim>\<open>dump\<close> writes the fields of the
  object followed by the schema's own attributes.
\<close>

definition Schema_cls :: pyclass where
  "Schema_cls = PyClass ''marshmallow.Schema'' [object_cls]"

definition demo_marshmallow :: marshmallow_module where
  "demo_marshmallow = \<lparr>Schema = Schema_cls\<rparr>"

definition UserSchema_cls :: pyclass where
  "UserSchema_cls = PyClass ''UserSchema'' [Schema_cls, object_cls]"

definition RequiredArgSchema_cls :: pyclass where
  "RequiredArgSchema_cls = PyClass ''RequiredArgSchema'' [Schema_cls, object_cls]"

definition SerialSchema_cls :: pyclass where
  "SerialSchema_cls = PyClass ''SerialSchema'' [Schema_cls, object_cls]"

definition ThreeSchema_cls :: pyclass where
  "ThreeSchema_cls = PyClass ''ThreeSchema'' [Schema_cls, object_cls]"

definition User_cls :: pyclass where
  "User_cls = PyClass ''User'' [object_cls]"

definition Response_cls :: pyclass where
  "Response_cls = PyClass ''requests.Response'' [object_cls]"

definition serial_schema :: "nat \<Rightarrow> pyval" where
  "serial_schema n = PyObject SerialSchema_cls [(''serial'', PyInt (int n))]"

definition demo_new :: "pyclass \<Rightarrow> pyval list \<Rightarrow> (nat, pyval) py" where
  "demo_new c args w =
     (if c = RequiredArgSchema_cls \<and> args = []
      then (Inl (TypeError ''__init__() missing 1 required positional argument''), w)
      else if c = SerialSchema_cls then (Inr (serial_schema w), w + 1)
      else if c = ThreeSchema_cls then (Inr (PyInt 3), w)
      else (Inr (PyObject c []), w))"

definition demo_getattr :: "pyval \<Rightarrow> string \<Rightarrow> (nat, pyval) py" where
  "demo_getattr obj name w =
     (if py_isinstance obj Schema_cls \<and> (name = ''load'' \<or> name = ''dump'')
         \<or> py_isinstance obj Response_cls \<and> name = ''json''
      then (Inr (PyMethod obj name), w)
      else (Inl (AttributeError name), w))"

fun str_key :: "pyval \<times> pyval \<Rightarrow> string \<times> pyval" where
  "str_key (PyStr k, v) = (k, v)"
| "str_key (k, v) = ([], v)"

fun field_item :: "string \<times> pyval \<Rightarrow> pyval \<times> pyval" where
  "field_item (k, v) = (PyStr k, v)"

fun own_attrs :: "pyval \<Rightarrow> (string \<times> pyval) list" where
  "own_attrs (PyObject c attrs) = attrs"
| "own_attrs x = []"

definition demo_method :: "pyval \<Rightarrow> string \<Rightarrow> pyval list \<Rightarrow> pyval + pyval" where
  "demo_method self name args =
     (if name = ''dump'' then
        (case args of
           [PyObject c attrs] \<Rightarrow>
             Inr (MarshalResult (PyDict (map field_item (attrs @ own_attrs self))) (PyDict []))
         | _ \<Rightarrow> Inl (TypeError ''dump() takes an object''))
      else if name = ''load'' then
        (case args of
           [PyDict kvs] \<Rightarrow>
             Inr (UnmarshalResult (PyObject User_cls (map str_key kvs)) (PyDict []))
         | _ \<Rightarrow> Inl (TypeError ''load() takes a mapping''))
      else if name = ''json'' then
        (case map_of (own_attrs self) ''_content'' of
           Some body \<Rightarrow> Inr body
         | None \<Rightarrow> Inl (ValueError ''No JSON object could be decoded''))
      else Inl (TypeError ''unknown method''))"

definition demo_call :: "pyval \<Rightarrow> pyval list \<Rightarrow> (nat, pyval) py" where
  "demo_call f args w =
     (case f of
        PyType c \<Rightarrow> demo_new c args w
      | PyMethod self name \<Rightarrow> (demo_method self name args, w)
      | _ \<Rightarrow> (Inl (TypeError ''object is not callable''), w))"

definition demo_env :: "nat extern" where
  "demo_env = \<lparr>ext_getattr = demo_getattr, ext_call = demo_call\<rparr>"

definition demo_factory :: MarshmallowConverter where
  "demo_factory = \<lparr>marshmallow = Some demo_marshmallow\<rparr>"

definition user_schema :: pyval where
  "user_schema = PyObject UserSchema_cls []"

definition ann :: pyval where
  "ann = PyObject User_cls [(''id'', PyInt 1), (''name'', PyStr ''Ann'')]"

definition ann_json :: pyval where
  "ann_json = PyDict [(PyStr ''id'', PyInt 1), (PyStr ''name'', PyStr ''Ann'')]"

definition response_with_json :: "pyval \<Rightarrow> pyval" where
  "response_with_json body = PyObject Response_cls [(''_content'', body)]"

section \<open>Facts about the embedding\<close>

lemma py_bind_return: "py_bind (py_return x) f = f x"
  by (rule ext) (simp add: py_bind_def py_return_def)

lemma py_bind_raise: "py_bind (py_raise e) f = py_raise e"
  by (rule ext) (simp add: py_bind_def py_raise_def)

lemma py_bind_Inr: "m w = (Inr x, w') \<Longrightarrow> py_bind m f w = f x w'"
  by (simp add: py_bind_def)

lemma py_bind_Inl: "m w = (Inl e, w') \<Longrightarrow> py_bind m f w = (Inl e, w')"
  by (simp add: py_bind_def)

lemma marshmallow_Schema_Some:
  "marshmallow cls = Some m \<Longrightarrow> marshmallow_Schema cls = py_return (Schema m)"
  by (simp add: marshmallow_Schema_def)

lemma marshmallow_Schema_None:
  "marshmallow cls = None \<Longrightarrow>
     marshmallow_Schema cls =
       py_raise (AttributeError
         (CHR 0x27 # ''NoneType' object has no attribute 'Schema'' @ [CHR 0x27]))"
  by (simp add: marshmallow_Schema_def)

lemma py_issubclass_class: "py_issubclass (PyType c) d w = (Inr (issubclass c d), w)"
  by (simp add: py_issubclass_def py_return_def)

lemma isclass_PyType: "isclass t \<Longrightarrow> \<exists>c. t = PyType c"
  by (cases t) simp_all

lemma get_schema_loaded:
  assumes "marshmallow cls = Some m"
  shows "get_schema env cls t w =
     (if isclass t \<and> py_issubclass t (Schema m) w = (Inr True, w) then py_call env t [] w
      else if py_isinstance t (Schema m) then (Inr t, w)
      else (Inl (ValueError ''Expected marshmallow.Scheme subclass or instance.''), w))"
proof (cases "isclass t")
  case True
  then obtain c where t: "t = PyType c"
    using isclass_PyType by blast
  have sub: "py_issubclass (PyType c) (Schema m) = py_return (issubclass c (Schema m))"
    by (simp add: py_issubclass_def)
  show ?thesis
    by (simp add: t get_schema_def py_and_def py_bind_return sub
        marshmallow_Schema_Some [OF assms])
       (simp_all add: py_return_def py_raise_def)
next
  case False
  then show ?thesis
    by (simp add: get_schema_def py_and_def py_bind_return
        marshmallow_Schema_Some [OF assms])
       (simp_all add: py_return_def py_raise_def)
qed

lemma get_schema_unloaded:
  assumes "marshmallow cls = None"
  shows "get_schema env cls t w =
     (Inl (AttributeError (CHR 0x27 # ''NoneType' object has no attribute 'Schema'' @ [CHR 0x27])),
      w)"
  by (cases "isclass t")
     (simp_all add: get_schema_def py_and_def py_bind_return py_bind_raise
        marshmallow_Schema_None [OF assms], simp_all add: py_raise_def)

lemma get_schema_of_class:
  assumes "marshmallow self = Some m" "issubclass c (Schema m)"
  shows "get_schema env self (PyType c) w = py_call env (PyType c) [] w"
  using assms by (simp add: get_schema_loaded py_issubclass_class)

lemma get_schema_of_instance:
  assumes "marshmallow self = Some m" "py_isinstance inst (Schema m)" "\<not> isclass inst"
  shows "get_schema env self inst w = (Inr inst, w)"
  using assms by (simp add: get_schema_loaded)

text \<open>What a successful resolution returns: the outcome of the call, or the argument.\<close>

lemma get_schema_returns:
  assumes "get_schema env self t w = (Inr s, w')"
  shows "\<exists>m. marshmallow self = Some m
     \<and> ((\<exists>c. t = PyType c \<and> issubclass c (Schema m) \<and> py_call env t [] w = (Inr s, w'))
        \<or> (s = t \<and> w' = w \<and> py_isinstance t (Schema m)))"
proof (cases "marshmallow self")
  case None
  with assms show ?thesis
    by (simp add: get_schema_unloaded)
next
  case (Some m)
  show ?thesis
  proof (cases "isclass t \<and> py_issubclass t (Schema m) w = (Inr True, w)")
    case True
    then obtain c where t: "t = PyType c" and sub: "issubclass c (Schema m)"
      by (cases t) (simp_all add: py_issubclass_class)
    from assms True have "py_call env t [] w = (Inr s, w')"
      by (simp add: get_schema_loaded [OF Some])
    with t sub Some show ?thesis
      by simp
  next
    case False
    with assms have "s = t \<and> w' = w \<and> py_isinstance t (Schema m)"
      by (auto simp: get_schema_loaded [OF Some] split: if_splits)
    with Some show ?thesis by simp
  qed
qed

lemma make_converter_cases:
  "make_converter env self k t w =
     (case get_schema env self t w of
        (Inr s, w') \<Rightarrow> (Inr (Some (k s)), w')
      | (Inl e, w') \<Rightarrow> if py_isinstance e ValueError_cls then (Inr None, w') else (Inl e, w'))"
  by (simp add: make_converter_def try_except_else_def py_return_def
      split: prod.splits sum.splits)

lemma ValueError_is_ValueError: "py_isinstance (ValueError msg) ValueError_cls"
  by (simp add: py_isinstance_def ValueError_def new_exception_def issubclass_def)

lemma AttributeError_not_ValueError: "\<not> py_isinstance (AttributeError msg) ValueError_cls"
  by (simp add: py_isinstance_def AttributeError_def new_exception_def issubclass_def
      AttributeError_cls_def ValueError_cls_def Exception_cls_def BaseException_cls_def
      object_cls_def)

lemma TypeError_not_ValueError: "\<not> py_isinstance (TypeError msg) ValueError_cls"
  by (simp add: py_isinstance_def TypeError_def new_exception_def issubclass_def
      TypeError_cls_def ValueError_cls_def Exception_cls_def BaseException_cls_def
      object_cls_def)

lemma py_getattr_data_MarshalResult:
  "py_getattr env (MarshalResult d errs) ''data'' w = (Inr d, w)"
  by (simp add: py_getattr_def MarshalResult_def py_return_def)

lemma py_getattr_data_UnmarshalResult:
  "py_getattr env (UnmarshalResult d errs) ''data'' w = (Inr d, w)"
  by (simp add: py_getattr_def UnmarshalResult_def py_return_def)

text \<open>The two \<^verbatim>\<open>convert\<close> bodies, step by step.\<close>

declare convert.simps [simp del]

lemma convert_request_steps:
  "convert env (RequestBodyConverter s) v w =
     (case py_call_method env s ''dump'' (py_return [v]) w of
        (Inl e, w') \<Rightarrow> (Inl e, w')
      | (Inr result, w') \<Rightarrow> py_getattr env result ''data'' w')"
  by (simp add: convert.simps py_bind_def)

lemma convert_response_steps:
  "convert env (ResponseBodyConverter s) r w =
     (case py_getattr env s ''load'' w of
        (Inl e, w1) \<Rightarrow> (Inl e, w1)
      | (Inr load, w1) \<Rightarrow>
          (case py_call_method env r ''json'' (py_return []) w1 of
             (Inl e, w2) \<Rightarrow> (Inl e, w2)
           | (Inr body, w2) \<Rightarrow>
               (case py_call env load [body] w2 of
                  (Inl e, w3) \<Rightarrow> (Inl e, w3)
                | (Inr result, w3) \<Rightarrow> py_getattr env result ''data'' w3)))"
  by (simp add: convert.simps py_call_method_def [of env s] py_bind_def py_return_def
      split: prod.splits sum.splits)

lemma call_method_steps:
  "py_call_method env obj name (py_return xs) w =
     (case py_getattr env obj name w of
        (Inl e, w1) \<Rightarrow> (Inl e, w1)
      | (Inr f, w1) \<Rightarrow> py_call env f xs w1)"
  by (simp add: py_call_method_def py_bind_def py_return_def split: prod.splits sum.splits)

subsection \<open>The sample environment\<close>

lemma demo_class_facts:
  "issubclass UserSchema_cls Schema_cls"
  "issubclass RequiredArgSchema_cls Schema_cls"
  "issubclass SerialSchema_cls Schema_cls"
  "issubclass ThreeSchema_cls Schema_cls"
  "\<not> issubclass int_cls Schema_cls"
  "\<not> issubclass type_cls Schema_cls"
  "\<not> issubclass UserSchema_cls Response_cls"
  "\<not> issubclass SerialSchema_cls Response_cls"
  "\<not> issubclass Response_cls Schema_cls"
  "issubclass Response_cls Response_cls"
  by (simp_all add: issubclass_def UserSchema_cls_def RequiredArgSchema_cls_def Schema_cls_def
      SerialSchema_cls_def ThreeSchema_cls_def int_cls_def type_cls_def object_cls_def
      Response_cls_def)

lemma demo_class_distinct:
  "UserSchema_cls \<noteq> RequiredArgSchema_cls" "UserSchema_cls \<noteq> SerialSchema_cls"
  "UserSchema_cls \<noteq> ThreeSchema_cls" "SerialSchema_cls \<noteq> RequiredArgSchema_cls"
  "ThreeSchema_cls \<noteq> RequiredArgSchema_cls" "ThreeSchema_cls \<noteq> SerialSchema_cls"
  by (simp_all add: UserSchema_cls_def RequiredArgSchema_cls_def SerialSchema_cls_def
      ThreeSchema_cls_def)

lemma demo_env_sel:
  "ext_getattr demo_env = demo_getattr" "ext_call demo_env = demo_call"
  "marshmallow demo_factory = Some demo_marshmallow" "Schema demo_marshmallow = Schema_cls"
  by (simp_all add: demo_env_def demo_factory_def demo_marshmallow_def)

lemma demo_call_class:
  "py_call demo_env (PyType UserSchema_cls) [] w = (Inr user_schema, w)"
  "py_call demo_env (PyType SerialSchema_cls) [] w = (Inr (serial_schema w), w + 1)"
  "py_call demo_env (PyType ThreeSchema_cls) [] w = (Inr (PyInt 3), w)"
  "py_call demo_env (PyType RequiredArgSchema_cls) [] w
     = (Inl (TypeError ''__init__() missing 1 required positional argument''), w)"
  by (simp_all add: py_call_def demo_env_sel demo_call_def demo_new_def demo_class_distinct
      user_schema_def)

lemma demo_get_schema_class:
  "get_schema demo_env demo_factory (PyType UserSchema_cls) w = (Inr user_schema, w)"
  by (simp add: get_schema_of_class [of _ demo_marshmallow] demo_env_sel demo_class_facts
      demo_call_class)

lemma demo_dump:
  "py_call_method demo_env user_schema ''dump'' (py_return [ann]) w
     = (Inr (MarshalResult ann_json (PyDict [])), w)"
  by (simp add: call_method_steps py_getattr_def py_call_def demo_env_sel user_schema_def
      demo_getattr_def demo_call_def demo_method_def py_isinstance_def demo_class_facts
      ann_def ann_json_def)

lemma demo_load_attr:
  "py_getattr demo_env user_schema ''load'' w = (Inr (PyMethod user_schema ''load''), w)"
  by (simp add: py_getattr_def demo_env_sel user_schema_def demo_getattr_def
      py_isinstance_def demo_class_facts)

lemma demo_load:
  "py_call demo_env (PyMethod user_schema ''load'') [ann_json] w
     = (Inr (UnmarshalResult ann (PyDict [])), w)"
  by (simp add: py_call_def demo_env_sel demo_call_def demo_method_def ann_def ann_json_def)

lemma demo_load_method:
  "py_call_method demo_env user_schema ''load'' (py_return [ann_json]) w
     = (Inr (UnmarshalResult ann (PyDict [])), w)"
  by (simp add: call_method_steps demo_load_attr demo_load)

lemma demo_json:
  "py_call_method demo_env (response_with_json b) ''json'' (py_return []) w = (Inr b, w)"
  by (simp add: call_method_steps py_getattr_def py_call_def demo_env_sel demo_getattr_def
      demo_call_def demo_method_def py_isinstance_def demo_class_facts response_with_json_def)

lemma demo_convert_request:
  "convert demo_env (RequestBodyConverter user_schema) ann w = (Inr ann_json, w)"
  by (simp add: convert_request_steps demo_dump py_getattr_data_MarshalResult)

lemma demo_convert_response:
  "convert demo_env (ResponseBodyConverter user_schema) (response_with_json ann_json) w
     = (Inr ann, w)"
  by (simp add: convert_response_steps demo_load_attr demo_json demo_load
      py_getattr_data_UnmarshalResult)

section \<open>The contract of the factory and its converters\<close>

text \<open>
  C1. With the schema library loaded, \<^verbatim>\<open>_get_schema\<close> is a three-way case split on its
  argument: a class that is a subclass of the base schema type is called with no arguments
  and the outcome of that call is the result; an instance of the base schema type is
  returned unchanged; anything else raises the \<^verbatim>\<open>ValueError\<close> of the last line.
\<close>

theorem get_schema_three_way:
  "get_schema env \<lparr>marshmallow = Some m\<rparr> t w =
     (if isclass t \<and> py_issubclass t (Schema m) w = (Inr True, w) then py_call env t [] w
      else if py_isinstance t (Schema m) then (Inr t, w)
      else (Inl (ValueError ''Expected marshmallow.Scheme subclass or instance.''), w))"
  by (rule get_schema_loaded) simp

theorem get_schema_three_way_witness:
  "get_schema demo_env \<lparr>marshmallow = Some demo_marshmallow\<rparr> (PyType UserSchema_cls) 0
     = (Inr user_schema, 0)
   \<and> get_schema demo_env \<lparr>marshmallow = Some demo_marshmallow\<rparr> user_schema 0
       = (Inr user_schema, 0)
   \<and> get_schema demo_env \<lparr>marshmallow = Some demo_marshmallow\<rparr> (PyType int_cls) 0
       = (Inl (ValueError ''Expected marshmallow.Scheme subclass or instance.''), 0)
   \<and> get_schema demo_env \<lparr>marshmallow = Some demo_marshmallow\<rparr> (PyInt 3) 0
       = (Inl (ValueError ''Expected marshmallow.Scheme subclass or instance.''), 0)"
proof -
  have a: "get_schema demo_env \<lparr>marshmallow = Some demo_marshmallow\<rparr> (PyType UserSchema_cls) 0
     = (Inr user_schema, 0)"
    using get_schema_three_way [of demo_env demo_marshmallow "PyType UserSchema_cls" 0]
    by (simp add: demo_env_sel py_issubclass_class demo_class_facts demo_call_class)
  have b: "get_schema demo_env \<lparr>marshmallow = Some demo_marshmallow\<rparr> user_schema 0
      = (Inr user_schema, 0)"
    using get_schema_three_way [of demo_env demo_marshmallow user_schema 0]
    by (simp add: demo_env_sel user_schema_def py_isinstance_def demo_class_facts)
  have c: "get_schema demo_env \<lparr>marshmallow = Some demo_marshmallow\<rparr> (PyType int_cls) 0
       = (Inl (ValueError ''Expected marshmallow.Scheme subclass or instance.''), 0)"
    using get_schema_three_way [of demo_env demo_marshmallow "PyType int_cls" 0]
    by (simp add: demo_env_sel py_issubclass_class py_isinstance_def demo_class_facts)
  have d: "get_schema demo_env \<lparr>marshmallow = Some demo_marshmallow\<rparr> (PyInt 3) 0
       = (Inl (ValueError ''Expected marshmallow.Scheme subclass or instance.''), 0)"
    using get_schema_three_way [of demo_env demo_marshmallow "PyInt 3" 0]
    by (simp add: demo_env_sel py_isinstance_def demo_class_facts)
  show ?thesis
    using a b c d by simp
qed

text \<open>
  C2. \<^verbatim>\<open>make_request_body_converter\<close> returns \<^verbatim>\<open>None\<close> exactly when schema resolution fails
  with its resolution error (an instance of \<^verbatim>\<open>ValueError\<close>), and when resolution returns a
  schema it returns a \<^verbatim>\<open>RequestBodyConverter\<close> wrapping that schema;
  \<^verbatim>\<open>make_response_body_converter\<close> does the same with a \<^verbatim>\<open>ResponseBodyConverter\<close>. In
  particular, for an argument that is neither a schema subclass nor a schema instance both
  methods return \<^verbatim>\<open>None\<close> and do not raise.
\<close>

theorem make_body_converter_soft_decline:
  "(make_request_body_converter env self t args kwargs w = (Inr None, w')
      \<longleftrightarrow> (\<exists>e. get_schema env self t w = (Inl e, w') \<and> py_isinstance e ValueError_cls))
   \<and> (\<forall>s. get_schema env self t w = (Inr s, w') \<longrightarrow>
         make_request_body_converter env self t args kwargs w
           = (Inr (Some (RequestBodyConverter s)), w'))
   \<and> (make_response_body_converter env self t args kwargs w = (Inr None, w')
      \<longleftrightarrow> (\<exists>e. get_schema env self t w = (Inl e, w') \<and> py_isinstance e ValueError_cls))
   \<and> (\<forall>s. get_schema env self t w = (Inr s, w') \<longrightarrow>
         make_response_body_converter env self t args kwargs w
           = (Inr (Some (ResponseBodyConverter s)), w'))
   \<and> (\<forall>m. marshmallow self = Some m
          \<and> \<not> (isclass t \<and> py_issubclass t (Schema m) w = (Inr True, w))
          \<and> \<not> py_isinstance t (Schema m) \<longrightarrow>
         make_request_body_converter env self t args kwargs w = (Inr None, w)
         \<and> make_response_body_converter env self t args kwargs w = (Inr None, w))"
proof -
  have none_iff: "make_converter env self k t w = (Inr None, w')
      \<longleftrightarrow> (\<exists>e. get_schema env self t w = (Inl e, w') \<and> py_isinstance e ValueError_cls)" for k
    by (auto simp: make_converter_cases split: prod.splits sum.splits if_splits)
  have some: "get_schema env self t w = (Inr s, w') \<Longrightarrow>
      make_converter env self k t w = (Inr (Some (k s)), w')" for k s
    by (simp add: make_converter_cases)
  have decline: "make_converter env self k t w = (Inr None, w)"
    if "marshmallow self = Some m"
      "\<not> (isclass t \<and> py_issubclass t (Schema m) w = (Inr True, w))"
      "\<not> py_isinstance t (Schema m)" for k m
  proof -
    from that have "get_schema env self t w
        = (Inl (ValueError ''Expected marshmallow.Scheme subclass or instance.''), w)"
      by (auto simp: get_schema_loaded)
    then show ?thesis
      by (simp add: make_converter_cases ValueError_is_ValueError)
  qed
  show ?thesis
    unfolding make_request_body_converter_def make_response_body_converter_def
    using none_iff some decline by blast
qed

theorem make_body_converter_soft_decline_witness:
  "make_request_body_converter demo_env demo_factory (PyType int_cls) [] [] 0 = (Inr None, 0)
   \<and> make_response_body_converter demo_env demo_factory (PyType int_cls) [] [] 0 = (Inr None, 0)
   \<and> make_request_body_converter demo_env demo_factory (PyType UserSchema_cls) [] [] 0
       = (Inr (Some (RequestBodyConverter user_schema)), 0)
   \<and> make_response_body_converter demo_env demo_factory (PyType UserSchema_cls) [] [] 0
       = (Inr (Some (ResponseBodyConverter user_schema)), 0)"
proof -
  have a: "marshmallow demo_factory = Some demo_marshmallow
      \<and> \<not> (isclass (PyType int_cls)
            \<and> py_issubclass (PyType int_cls) (Schema demo_marshmallow) (0::nat) = (Inr True, 0))
      \<and> \<not> py_isinstance (PyType int_cls) (Schema demo_marshmallow)"
    by (simp add: demo_env_sel py_issubclass_class demo_class_facts py_isinstance_def)
  note decline = make_body_converter_soft_decline
      [of demo_env demo_factory "PyType int_cls" "[]" "[]" 0 0]
  note accept = make_body_converter_soft_decline
      [of demo_env demo_factory "PyType UserSchema_cls" "[]" "[]" 0 0]
  have b: "make_request_body_converter demo_env demo_factory (PyType int_cls) [] [] 0 = (Inr None, 0)
   \<and> make_response_body_converter demo_env demo_factory (PyType int_cls) [] [] 0 = (Inr None, 0)"
    using a decline by blast
  have c: "make_request_body_converter demo_env demo_factory (PyType UserSchema_cls) [] [] 0
       = (Inr (Some (RequestBodyConverter user_schema)), 0)
   \<and> make_response_body_converter demo_env demo_factory (PyType UserSchema_cls) [] [] 0
       = (Inr (Some (ResponseBodyConverter user_schema)), 0)"
    using demo_get_schema_class [of 0] accept by blast
  show ?thesis
    using b c by simp
qed

text \<open>
  C3. \<^verbatim>\<open>RequestBodyConverter.convert(v)\<close> is the \<^verbatim>\<open>data\<close> component of the result of the
  held schema's \<^verbatim>\<open>dump(v)\<close>, with nothing else done to it; an exception raised by
  \<^verbatim>\<open>dump\<close> is raised by \<^verbatim>\<open>convert\<close> unchanged.
\<close>

theorem request_convert_dumps:
  "convert env (RequestBodyConverter s) v w =
     (case py_call_method env s ''dump'' (py_return [v]) w of
        (Inl e, w') \<Rightarrow> (Inl e, w')
      | (Inr result, w') \<Rightarrow> py_getattr env result ''data'' w')
   \<and> (\<forall>d errs w'.
         py_call_method env s ''dump'' (py_return [v]) w = (Inr (MarshalResult d errs), w') \<longrightarrow>
         convert env (RequestBodyConverter s) v w = (Inr d, w'))
   \<and> (\<forall>e w'. py_call_method env s ''dump'' (py_return [v]) w = (Inl e, w') \<longrightarrow>
         convert env (RequestBodyConverter s) v w = (Inl e, w'))"
  by (simp add: convert_request_steps py_getattr_data_MarshalResult)

theorem request_convert_dumps_witness:
  "py_call_method demo_env user_schema ''dump'' (py_return [ann]) 0
     = (Inr (MarshalResult ann_json (PyDict [])), 0)
   \<and> convert demo_env (RequestBodyConverter user_schema) ann 0 = (Inr ann_json, 0)
   \<and> py_call_method demo_env user_schema ''dump'' (py_return [PyInt 1]) 0
       = (Inl (TypeError ''dump() takes an object''), 0)
   \<and> convert demo_env (RequestBodyConverter user_schema) (PyInt 1) 0
       = (Inl (TypeError ''dump() takes an object''), 0)"
proof -
  have b: "py_call_method demo_env user_schema ''dump'' (py_return [PyInt 1]) 0
       = (Inl (TypeError ''dump() takes an object''), 0)"
    by (simp add: call_method_steps py_getattr_def py_call_def demo_env_sel user_schema_def
      demo_getattr_def demo_call_def demo_method_def py_isinstance_def demo_class_facts)
  have c1: "convert demo_env (RequestBodyConverter user_schema) ann 0 = (Inr ann_json, 0)"
    using request_convert_dumps [of demo_env user_schema ann 0, THEN conjunct2, THEN conjunct1,
        rule_format, of ann_json "PyDict []" 0] demo_dump [of 0]
    by simp
  have c2: "convert demo_env (RequestBodyConverter user_schema) (PyInt 1) 0
       = (Inl (TypeError ''dump() takes an object''), 0)"
    using request_convert_dumps [of demo_env user_schema "PyInt 1" 0, THEN conjunct2,
        THEN conjunct2, rule_format, of "TypeError ''dump() takes an object''" 0] b
    by simp
  show ?thesis
    using demo_dump [of 0] b c1 c2 by simp
qed

text \<open>
  C4. \<^verbatim>\<open>ResponseBodyConverter.convert(r)\<close> looks up the held schema's \<^verbatim>\<open>load\<close>, takes the
  body \<^verbatim>\<open>r.json()\<close>, passes it to \<^verbatim>\<open>load\<close> and returns the \<^verbatim>\<open>data\<close> component of the
  result; an exception raised by the lookup, by \<^verbatim>\<open>json\<close> or by \<^verbatim>\<open>load\<close> is raised by
  \<^verbatim>\<open>convert\<close> unchanged.
\<close>

theorem response_convert_loads:
  "(\<forall>e w1. py_getattr env s ''load'' w = (Inl e, w1) \<longrightarrow>
      convert env (ResponseBodyConverter s) r w = (Inl e, w1))
   \<and> (\<forall>load w1 body w2.
        py_getattr env s ''load'' w = (Inr load, w1)
        \<and> py_call_method env r ''json'' (py_return []) w1 = (Inr body, w2) \<longrightarrow>
        convert env (ResponseBodyConverter s) r w =
          (case py_call env load [body] w2 of
             (Inl e, w3) \<Rightarrow> (Inl e, w3)
           | (Inr result, w3) \<Rightarrow> py_getattr env result ''data'' w3))
   \<and> (\<forall>load w1 body w2 v errs w3.
        py_getattr env s ''load'' w = (Inr load, w1)
        \<and> py_call_method env r ''json'' (py_return []) w1 = (Inr body, w2)
        \<and> py_call env load [body] w2 = (Inr (UnmarshalResult v errs), w3) \<longrightarrow>
        convert env (ResponseBodyConverter s) r w = (Inr v, w3))
   \<and> (\<forall>load w1 body w2 e w3.
        py_getattr env s ''load'' w = (Inr load, w1)
        \<and> py_call_method env r ''json'' (py_return []) w1 = (Inr body, w2)
        \<and> py_call env load [body] w2 = (Inl e, w3) \<longrightarrow>
        convert env (ResponseBodyConverter s) r w = (Inl e, w3))
   \<and> (\<forall>load w1 e w2.
        py_getattr env s ''load'' w = (Inr load, w1)
        \<and> py_call_method env r ''json'' (py_return []) w1 = (Inl e, w2) \<longrightarrow>
        convert env (ResponseBodyConverter s) r w = (Inl e, w2))"
  by (simp add: convert_response_steps py_getattr_data_UnmarshalResult)

theorem response_convert_loads_witness:
  "py_getattr demo_env user_schema ''load'' 0 = (Inr (PyMethod user_schema ''load''), 0)
   \<and> py_call_method demo_env (response_with_json ann_json) ''json'' (py_return []) 0
       = (Inr ann_json, 0)
   \<and> py_call demo_env (PyMethod user_schema ''load'') [ann_json] 0
       = (Inr (UnmarshalResult ann (PyDict [])), 0)
   \<and> convert demo_env (ResponseBodyConverter user_schema) (response_with_json ann_json) 0
       = (Inr ann, 0)
   \<and> py_call demo_env (PyMethod user_schema ''load'') [PyInt 1] 0
       = (Inl (TypeError ''load() takes a mapping''), 0)
   \<and> convert demo_env (ResponseBodyConverter user_schema) (response_with_json (PyInt 1)) 0
       = (Inl (TypeError ''load() takes a mapping''), 0)
   \<and> py_call_method demo_env (PyObject Response_cls []) ''json'' (py_return []) 0
       = (Inl (ValueError ''No JSON object could be decoded''), 0)
   \<and> convert demo_env (ResponseBodyConverter user_schema) (PyObject Response_cls []) 0
       = (Inl (ValueError ''No JSON object could be decoded''), 0)
   \<and> py_getattr demo_env (PyInt 7) ''load'' 0 = (Inl (AttributeError ''load''), 0)
   \<and> convert demo_env (ResponseBodyConverter (PyInt 7)) (response_with_json ann_json) 0
       = (Inl (AttributeError ''load''), 0)"
proof -
  have j2: "py_call_method demo_env (PyObject Response_cls []) ''json'' (py_return []) 0
       = (Inl (ValueError ''No JSON object could be decoded''), 0)"
    by (simp add: call_method_steps py_getattr_def py_call_def demo_env_sel demo_getattr_def
      demo_call_def demo_method_def py_isinstance_def demo_class_facts)
  have l2: "py_call demo_env (PyMethod user_schema ''load'') [PyInt 1] 0
       = (Inl (TypeError ''load() takes a mapping''), 0)"
    by (simp add: py_call_def demo_env_sel demo_call_def demo_method_def)
  have g2: "py_getattr demo_env (PyInt 7) ''load'' 0 = (Inl (AttributeError ''load''), 0)"
    by (simp add: py_getattr_def demo_env_sel demo_getattr_def py_isinstance_def int_cls_def
      issubclass_def Schema_cls_def Response_cls_def object_cls_def)
  note ok = response_convert_loads [of demo_env user_schema 0 "response_with_json ann_json"]
  note bad_body = response_convert_loads [of demo_env user_schema 0 "response_with_json (PyInt 1)"]
  note no_body = response_convert_loads [of demo_env user_schema 0 "PyObject Response_cls []"]
  note no_load = response_convert_loads [of demo_env "PyInt 7" 0 "response_with_json ann_json"]
  have c1: "convert demo_env (ResponseBodyConverter user_schema) (response_with_json ann_json) 0
      = (Inr ann, 0)"
    using ok [THEN conjunct2, THEN conjunct2, THEN conjunct1, rule_format,
        of "PyMethod user_schema ''load''" 0 ann_json 0 ann "PyDict []" 0]
      demo_load_attr [of 0] demo_json [of ann_json 0] demo_load [of 0]
    by simp
  have c2: "convert demo_env (ResponseBodyConverter user_schema) (response_with_json (PyInt 1)) 0
      = (Inl (TypeError ''load() takes a mapping''), 0)"
    using bad_body [THEN conjunct2, THEN conjunct2, THEN conjunct2, THEN conjunct1, rule_format,
        of "PyMethod user_schema ''load''" 0 "PyInt 1" 0 "TypeError ''load() takes a mapping''" 0]
      demo_load_attr [of 0] demo_json [of "PyInt 1" 0] l2
    by simp
  have c3: "convert demo_env (ResponseBodyConverter user_schema) (PyObject Response_cls []) 0
      = (Inl (ValueError ''No JSON object could be decoded''), 0)"
    using no_body [THEN conjunct2, THEN conjunct2, THEN conjunct2, THEN conjunct2, rule_format,
        of "PyMethod user_schema ''load''" 0 "ValueError ''No JSON object could be decoded''" 0]
      demo_load_attr [of 0] j2
    by simp
  have c4: "convert demo_env (ResponseBodyConverter (PyInt 7)) (response_with_json ann_json) 0
       = (Inl (AttributeError ''load''), 0)"
    using no_load [THEN conjunct1, rule_format, of "AttributeError ''load''" 0] g2
    by simp
  show ?thesis
    using demo_load_attr [of 0] demo_json [of ann_json 0] demo_load [of 0] j2 l2 g2 c1 c2 c3 c4
    by simp
qed

text \<open>
  C5. Round trip: when the library's load is a left inverse of its dump on \<open>obj\<close> for the
  schema \<open>s\<close>, and the response's \<^verbatim>\<open>json()\<close> returns what the request converter of \<open>s\<close>
  produced for \<open>obj\<close>, then the response converter of \<open>s\<close>, run after the request
  converter, yields \<open>obj\<close> again.
\<close>

theorem round_trip:
  assumes inverse: "load_after_dump env s obj w = (Inr obj, w')"
    and wraps: "\<forall>u. py_call_method env response ''json'' (py_return []) u
        = (fst (convert env (RequestBodyConverter s) obj w), u)"
  shows "\<exists>raw w1. convert env (RequestBodyConverter s) obj w = (Inr raw, w1)
     \<and> convert env (ResponseBodyConverter s) response w1 = (Inr obj, w')"
proof -
  from inverse obtain dumped wa raw w1 loaded wc where
    d: "py_call_method env s ''dump'' (py_return [obj]) w = (Inr dumped, wa)" and
    r: "py_getattr env dumped ''data'' wa = (Inr raw, w1)" and
    l: "py_call_method env s ''load'' (py_return [raw]) w1 = (Inr loaded, wc)" and
    o: "py_getattr env loaded ''data'' wc = (Inr obj, w')"
    by (auto simp: load_after_dump_def py_bind_def split: prod.splits sum.splits)
  from d r have req: "convert env (RequestBodyConverter s) obj w = (Inr raw, w1)"
    by (simp add: convert_request_steps)
  with wraps have json: "py_call_method env response ''json'' (py_return []) u = (Inr raw, u)"
    for u
    by simp
  from l obtain load wb where
    g: "py_getattr env s ''load'' w1 = (Inr load, wb)" and
    c: "py_call env load [raw] wb = (Inr loaded, wc)"
    by (auto simp: call_method_steps split: prod.splits sum.splits)
  have "convert env (ResponseBodyConverter s) response w1 = (Inr obj, w')"
    by (simp add: convert_response_steps g json c o)
  with req show ?thesis
    by blast
qed

theorem round_trip_witness:
  "load_after_dump demo_env user_schema ann 0 = (Inr ann, 0)
   \<and> convert demo_env (RequestBodyConverter user_schema) ann 0 = (Inr ann_json, 0)
   \<and> convert demo_env (ResponseBodyConverter user_schema) (response_with_json ann_json) 0
       = (Inr ann, 0)"
proof -
  have a: "load_after_dump demo_env user_schema ann 0 = (Inr ann, 0)"
    by (simp add: load_after_dump_def py_bind_def demo_dump py_getattr_data_MarshalResult
      demo_load_method py_getattr_data_UnmarshalResult)
  have b: "\<forall>u. py_call_method demo_env (response_with_json ann_json) ''json'' (py_return []) u
       = (fst (convert demo_env (RequestBodyConverter user_schema) ann 0), u)"
    by (simp add: demo_convert_request demo_json)
  show ?thesis
    using a round_trip [OF a b] by (simp add: demo_convert_request)
qed

text \<open>
  C6. When the import of the schema library fails with an \<^verbatim>\<open>ImportError\<close> the class
  attribute is \<^verbatim>\<open>None\<close> and constructing the factory raises \<^verbatim>\<open>ImportError\<close>; with the
  library present construction succeeds. The check is made at construction only: on a
  factory whose library is absent the per-call methods do not raise that error again, the
  two body-converter methods fail on the attribute access \<^verbatim>\<open>None.Schema\<close> and
  \<^verbatim>\<open>make_string_converter\<close> returns \<^verbatim>\<open>None\<close>.
\<close>

theorem availability_checked_at_construction:
  "(\<forall>e w'. import_marshmallow w = (Inl e, w') \<and> py_isinstance e ImportError_cls \<longrightarrow>
       class_body import_marshmallow w = (Inr \<lparr>marshmallow = None\<rparr>, w'))
   \<and> new_MarshmallowConverter \<lparr>marshmallow = None\<rparr> w
       = (Inl (ImportError (''No module named 'marshmallow'' @ [CHR 0x27])), w)
   \<and> (\<forall>m w'. import_marshmallow w = (Inr m, w') \<longrightarrow>
         class_body import_marshmallow w = (Inr \<lparr>marshmallow = Some m\<rparr>, w'))
   \<and> (\<forall>m. new_MarshmallowConverter \<lparr>marshmallow = Some m\<rparr> w
         = (Inr \<lparr>marshmallow = Some m\<rparr>, w))
   \<and> make_request_body_converter env \<lparr>marshmallow = None\<rparr> t args kwargs w
       = (Inl (AttributeError (CHR 0x27 # ''NoneType' object has no attribute 'Schema'' @ [CHR 0x27])),
          w)
   \<and> make_response_body_converter env \<lparr>marshmallow = None\<rparr> t args kwargs w
       = (Inl (AttributeError (CHR 0x27 # ''NoneType' object has no attribute 'Schema'' @ [CHR 0x27])),
          w)
   \<and> make_string_converter env \<lparr>marshmallow = None\<rparr> t args kwargs w = (Inr None, w)"
proof -
  have body: "class_body import_marshmallow w = (Inr \<lparr>marshmallow = None\<rparr>, w')"
    if "import_marshmallow w = (Inl e, w')" "py_isinstance e ImportError_cls" for e w'
    using that by (simp add: class_body_def try_except_else_def py_return_def)
  have init_absent: "new_MarshmallowConverter \<lparr>marshmallow = None\<rparr> w
       = (Inl (ImportError (''No module named 'marshmallow'' @ [CHR 0x27])), w)"
    by (simp add: new_MarshmallowConverter_def init_def py_bind_raise) (simp add: py_raise_def)
  have body_present: "class_body import_marshmallow w = (Inr \<lparr>marshmallow = Some m\<rparr>, w')"
    if "import_marshmallow w = (Inr m, w')" for m w'
    using that by (simp add: class_body_def try_except_else_def py_return_def)
  have init_present: "new_MarshmallowConverter \<lparr>marshmallow = Some m\<rparr> w
         = (Inr \<lparr>marshmallow = Some m\<rparr>, w)" for m
    by (simp add: new_MarshmallowConverter_def init_def py_bind_return) (simp add: py_return_def)
  have calls: "make_converter env \<lparr>marshmallow = None\<rparr> k t w
       = (Inl (AttributeError (CHR 0x27 # ''NoneType' object has no attribute 'Schema'' @ [CHR 0x27])),
          w)" for k
    by (simp add: make_converter_cases get_schema_unloaded AttributeError_not_ValueError)
  have string: "make_string_converter env \<lparr>marshmallow = None\<rparr> t args kwargs w = (Inr None, w)"
    by (simp add: make_string_converter_def py_return_def)
  show ?thesis
    unfolding make_request_body_converter_def make_response_body_converter_def
    using body init_absent body_present init_present calls string by blast
qed

theorem availability_checked_at_construction_witness:
  "py_isinstance (ImportError ''No module named marshmallow'') ImportError_cls
   \<and> class_body (py_raise (ImportError ''No module named marshmallow'')) (0::nat)
       = (Inr \<lparr>marshmallow = None\<rparr>, 0)
   \<and> class_body (py_return demo_marshmallow) (0::nat)
       = (Inr \<lparr>marshmallow = Some demo_marshmallow\<rparr>, 0)"
proof -
  have a: "py_isinstance (ImportError ''No module named marshmallow'') ImportError_cls"
    by (simp add: py_isinstance_def ImportError_def new_exception_def issubclass_def)
  have b: "py_raise (ImportError ''No module named marshmallow'') (0::nat)
      = (Inl (ImportError ''No module named marshmallow'') :: pyval + marshmallow_module, 0)"
    by (simp add: py_raise_def)
  have c: "py_return demo_marshmallow (0::nat) = (Inr demo_marshmallow :: pyval + _, 0)"
    by (simp add: py_return_def)
  note absent = availability_checked_at_construction
      [of "py_raise (ImportError ''No module named marshmallow'')" 0 demo_env PyNone "[]" "[]"]
  note present = availability_checked_at_construction
      [of "py_return demo_marshmallow" 0 demo_env PyNone "[]" "[]"]
  have d: "class_body (py_raise (ImportError ''No module named marshmallow'')) (0::nat)
       = (Inr \<lparr>marshmallow = None\<rparr>, 0)"
    using absent [THEN conjunct1, rule_format, of "ImportError ''No module named marshmallow''" 0]
      a b by simp
  have e: "class_body (py_return demo_marshmallow) (0::nat)
       = (Inr \<lparr>marshmallow = Some demo_marshmallow\<rparr>, 0)"
    using present [THEN conjunct2, THEN conjunct2, THEN conjunct1, rule_format,
        of demo_marshmallow 0] c by simp
  show ?thesis
    using a d e by simp
qed

text \<open>
  C9. \<^verbatim>\<open>make_string_converter\<close> returns \<^verbatim>\<open>None\<close> for every argument and every extra
  positional or keyword argument.
\<close>

theorem make_string_converter_declines:
  "make_string_converter env self t args kwargs w = (Inr None, w)"
  by (simp add: make_string_converter_def py_return_def)

text \<open>
  C10. Only \<^verbatim>\<open>ValueError\<close> is turned into a \<^verbatim>\<open>None\<close> result: when the argument is a schema
  subclass whose instantiation with no arguments raises an exception that is not an
  instance of \<^verbatim>\<open>ValueError\<close>, both body-converter methods raise that exception.
\<close>

theorem other_exceptions_propagate:
  assumes loaded: "marshmallow self = Some m"
    and sub: "issubclass c (Schema m)"
    and raises: "py_call env (PyType c) [] w = (Inl e, w')"
    and other: "\<not> py_isinstance e ValueError_cls"
  shows "make_request_body_converter env self (PyType c) args kwargs w = (Inl e, w')
   \<and> make_response_body_converter env self (PyType c) args kwargs w = (Inl e, w')"
proof -
  have "get_schema env self (PyType c) w = (Inl e, w')"
    by (simp add: get_schema_of_class [OF loaded sub] raises)
  with other have "make_converter env self k (PyType c) w = (Inl e, w')" for k
    by (simp add: make_converter_cases)
  then show ?thesis
    by (simp add: make_request_body_converter_def make_response_body_converter_def)
qed

theorem other_exceptions_propagate_witness:
  "marshmallow demo_factory = Some demo_marshmallow
   \<and> issubclass RequiredArgSchema_cls (Schema demo_marshmallow)
   \<and> py_call demo_env (PyType RequiredArgSchema_cls) [] 0
       = (Inl (TypeError ''__init__() missing 1 required positional argument''), 0)
   \<and> \<not> py_isinstance (TypeError ''__init__() missing 1 required positional argument'')
         ValueError_cls
   \<and> make_request_body_converter demo_env demo_factory (PyType RequiredArgSchema_cls) [] [] 0
       = (Inl (TypeError ''__init__() missing 1 required positional argument''), 0)
   \<and> make_response_body_converter demo_env demo_factory (PyType RequiredArgSchema_cls) [] [] 0
       = (Inl (TypeError ''__init__() missing 1 required positional argument''), 0)"
proof -
  have a: "marshmallow demo_factory = Some demo_marshmallow"
    by (simp add: demo_env_sel)
  have b: "issubclass RequiredArgSchema_cls (Schema demo_marshmallow)"
    by (simp add: demo_env_sel demo_class_facts)
  have c: "py_call demo_env (PyType RequiredArgSchema_cls) [] 0
       = (Inl (TypeError ''__init__() missing 1 required positional argument''), 0)"
    by (rule demo_call_class)
  have d: "\<not> py_isinstance (TypeError ''__init__() missing 1 required positional argument'')
         ValueError_cls"
    by (rule TypeError_not_ValueError)
  show ?thesis
    using a b c d other_exceptions_propagate [OF a b c d, of "[]" "[]"] by simp
qed

text \<open>
  C7. For a class \<open>c\<close> that subclasses the base schema type, resolving the class is one
  fresh call \<^verbatim>\<open>c()\<close> and yields whatever that call yields; resolving an existing schema
  instance yields that instance itself. The two resolutions give the same schema exactly
  when the call made during resolution returns a value equal to the given instance, and
  then the factory builds the same converters from the class and from the instance.
\<close>

theorem class_resolves_by_fresh_call:
  assumes loaded: "marshmallow self = Some m"
    and sub: "issubclass c (Schema m)"
    and inst: "py_isinstance inst (Schema m)"
    and obj: "\<not> isclass inst"
  shows "get_schema env self (PyType c) w = py_call env (PyType c) [] w
   \<and> get_schema env self inst u = (Inr inst, u)
   \<and> (fst (get_schema env self (PyType c) w) = fst (get_schema env self inst u)
        \<longleftrightarrow> fst (py_call env (PyType c) [] w) = Inr inst)
   \<and> (\<forall>w'. py_call env (PyType c) [] w = (Inr inst, w') \<longrightarrow>
        make_request_body_converter env self (PyType c) args kwargs w
          = (Inr (Some (RequestBodyConverter inst)), w')
        \<and> make_request_body_converter env self inst args kwargs u
          = (Inr (Some (RequestBodyConverter inst)), u)
        \<and> make_response_body_converter env self (PyType c) args kwargs w
          = (Inr (Some (ResponseBodyConverter inst)), w')
        \<and> make_response_body_converter env self inst args kwargs u
          = (Inr (Some (ResponseBodyConverter inst)), u))"
proof -
  have cls: "get_schema env self (PyType c) w = py_call env (PyType c) [] w"
    by (rule get_schema_of_class [OF loaded sub])
  have same: "get_schema env self inst u = (Inr inst, u)"
    by (rule get_schema_of_instance [OF loaded inst obj])
  have made: "make_converter env self k (PyType c) w = (Inr (Some (k inst)), w')
      \<and> make_converter env self k inst u = (Inr (Some (k inst)), u)"
    if "py_call env (PyType c) [] w = (Inr inst, w')" for k w'
    using that by (simp add: make_converter_cases cls same)
  show ?thesis
    unfolding make_request_body_converter_def make_response_body_converter_def
    using made by (simp add: cls same)
qed

theorem class_resolves_by_fresh_call_witness:
  "marshmallow demo_factory = Some demo_marshmallow
   \<and> issubclass UserSchema_cls (Schema demo_marshmallow)
   \<and> py_isinstance user_schema (Schema demo_marshmallow)
   \<and> \<not> isclass user_schema
   \<and> py_call demo_env (PyType UserSchema_cls) [] 0 = (Inr user_schema, 0)
   \<and> get_schema demo_env demo_factory (PyType UserSchema_cls) 0 = (Inr user_schema, 0)
   \<and> get_schema demo_env demo_factory user_schema 0 = (Inr user_schema, 0)
   \<and> make_request_body_converter demo_env demo_factory (PyType UserSchema_cls) [] [] 0
       = (Inr (Some (RequestBodyConverter user_schema)), 0)
   \<and> make_request_body_converter demo_env demo_factory user_schema [] [] 0
       = (Inr (Some (RequestBodyConverter user_schema)), 0)"
proof -
  have a: "marshmallow demo_factory = Some demo_marshmallow"
    by (simp add: demo_env_sel)
  have b: "issubclass UserSchema_cls (Schema demo_marshmallow)"
    by (simp add: demo_env_sel demo_class_facts)
  have c: "py_isinstance user_schema (Schema demo_marshmallow)"
    by (simp add: user_schema_def py_isinstance_def demo_env_sel demo_class_facts)
  have d: "\<not> isclass user_schema"
    by (simp add: user_schema_def)
  have e: "py_call demo_env (PyType UserSchema_cls) [] 0 = (Inr user_schema, 0)"
    by (rule demo_call_class)
  note fresh = class_resolves_by_fresh_call [OF a b c d, of demo_env 0 0 "[]" "[]"]
  have f: "get_schema demo_env demo_factory (PyType UserSchema_cls) 0 = (Inr user_schema, 0)"
    using fresh [THEN conjunct1] e by simp
  have g: "get_schema demo_env demo_factory user_schema 0 = (Inr user_schema, 0)"
    using fresh [THEN conjunct2, THEN conjunct1] by simp
  have h: "make_request_body_converter demo_env demo_factory (PyType UserSchema_cls) [] [] 0
       = (Inr (Some (RequestBodyConverter user_schema)), 0)
     \<and> make_request_body_converter demo_env demo_factory user_schema [] [] 0
       = (Inr (Some (RequestBodyConverter user_schema)), 0)"
    using fresh [THEN conjunct2, THEN conjunct2, THEN conjunct2, rule_format, of 0] e by simp
  show ?thesis
    using a b c d e f g h by simp
qed

text \<open>
  Without the condition on the fresh call, C7 fails. The constructor of \<^verbatim>\<open>SerialSchema\<close>
  stamps each instance with the next serial number: the converter built from the class
  holds instance 0, the converter built from the instance \<^verbatim>\<open>SerialSchema()\<close> created next
  holds instance 1, and the two give different \<^verbatim>\<open>convert\<close> results on the same input.
\<close>

theorem class_and_instance_differ_counterexample:
  "issubclass SerialSchema_cls (Schema demo_marshmallow)
   \<and> make_request_body_converter demo_env demo_factory (PyType SerialSchema_cls) [] [] 0
       = (Inr (Some (RequestBodyConverter (serial_schema 0))), 1)
   \<and> py_call demo_env (PyType SerialSchema_cls) [] 1 = (Inr (serial_schema 1), 2)
   \<and> make_request_body_converter demo_env demo_factory (serial_schema 1) [] [] 2
       = (Inr (Some (RequestBodyConverter (serial_schema 1))), 2)
   \<and> convert demo_env (RequestBodyConverter (serial_schema 0)) ann 2
       \<noteq> convert demo_env (RequestBodyConverter (serial_schema 1)) ann 2"
proof -
  have loaded: "marshmallow demo_factory = Some demo_marshmallow"
    by (simp add: demo_env_sel)
  have sub: "issubclass SerialSchema_cls (Schema demo_marshmallow)"
    by (simp add: demo_env_sel demo_class_facts)
  have cls: "get_schema demo_env demo_factory (PyType SerialSchema_cls) 0
      = (Inr (serial_schema 0), 1)"
    by (simp add: get_schema_of_class [OF loaded sub] demo_call_class)
  have inst: "get_schema demo_env demo_factory (serial_schema 1) 2 = (Inr (serial_schema 1), 2)"
    by (rule get_schema_of_instance [OF loaded])
       (simp_all add: serial_schema_def py_isinstance_def demo_env_sel demo_class_facts)
  have dump: "convert demo_env (RequestBodyConverter (serial_schema n)) ann 2
      = (Inr (PyDict [(PyStr ''id'', PyInt 1), (PyStr ''name'', PyStr ''Ann''),
           (PyStr ''serial'', PyInt (int n))]), 2)" for n
    by (simp add: convert_request_steps call_method_steps py_getattr_def py_call_def
        demo_env_sel serial_schema_def demo_getattr_def demo_call_def demo_method_def
        py_isinstance_def demo_class_facts ann_def MarshalResult_def py_return_def)
  have call: "py_call demo_env (PyType SerialSchema_cls) [] 1 = (Inr (serial_schema 1), 2)"
    using demo_call_class(2) [of 1] by simp
  have m1: "make_request_body_converter demo_env demo_factory (PyType SerialSchema_cls) [] [] 0
       = (Inr (Some (RequestBodyConverter (serial_schema 0))), 1)"
    by (simp only: make_request_body_converter_def make_converter_cases cls prod.case sum.case)
  have m2: "make_request_body_converter demo_env demo_factory (serial_schema 1) [] [] 2
       = (Inr (Some (RequestBodyConverter (serial_schema 1))), 2)"
    by (simp only: make_request_body_converter_def make_converter_cases inst prod.case sum.case)
  have neq: "convert demo_env (RequestBodyConverter (serial_schema 0)) ann 2
       \<noteq> convert demo_env (RequestBodyConverter (serial_schema 1)) ann 2"
    by (simp add: dump)
  show ?thesis
    by (intro conjI) (rule sub m1 call m2 neq)+
qed

text \<open>
  C8. A converter returned by \<^verbatim>\<open>make_request_body_converter\<close> or
  \<^verbatim>\<open>make_response_body_converter\<close> is built only after schema resolution has succeeded
  and holds exactly the object that resolution returned. That object is either the
  argument itself, which is then an instance of the base schema type, or, for a schema
  subclass, the result of the call \<^verbatim>\<open>type_()\<close>, which is taken as it is.
\<close>

theorem converter_holds_resolved_object:
  assumes "make_request_body_converter env self t args kwargs w = (Inr (Some q), w')
      \<or> make_response_body_converter env self t args kwargs w = (Inr (Some q), w')"
  shows "\<exists>m. marshmallow self = Some m
      \<and> get_schema env self t w = (Inr (schema q), w')
      \<and> ((\<exists>c. t = PyType c \<and> issubclass c (Schema m)
              \<and> py_call env t [] w = (Inr (schema q), w'))
          \<or> (schema q = t \<and> w' = w \<and> py_isinstance (schema q) (Schema m)))"
proof -
  from assms obtain k where made: "make_converter env self k t w = (Inr (Some q), w')"
    and wraps: "\<And>s. schema (k s) = s"
    unfolding make_request_body_converter_def make_response_body_converter_def
    by (metis converter.sel)
  from made obtain s where res: "get_schema env self t w = (Inr s, w')" and q: "q = k s"
    by (auto simp: make_converter_cases split: prod.splits sum.splits if_splits)
  from get_schema_returns [OF res] q wraps res show ?thesis
    by auto
qed

theorem converter_holds_resolved_object_witness:
  "make_request_body_converter demo_env demo_factory (PyType UserSchema_cls) [] [] 0
     = (Inr (Some (RequestBodyConverter user_schema)), 0)
   \<and> make_response_body_converter demo_env demo_factory user_schema [] [] 0
     = (Inr (Some (ResponseBodyConverter user_schema)), 0)
   \<and> (\<exists>m. marshmallow demo_factory = Some m
      \<and> get_schema demo_env demo_factory (PyType UserSchema_cls) 0 = (Inr user_schema, 0)
      \<and> get_schema demo_env demo_factory user_schema 0 = (Inr user_schema, 0))"
proof -
  have loaded: "marshmallow demo_factory = Some demo_marshmallow"
    by (simp add: demo_env_sel)
  have inst: "get_schema demo_env demo_factory user_schema 0 = (Inr user_schema, 0)"
    by (rule get_schema_of_instance [OF loaded])
       (simp_all add: user_schema_def py_isinstance_def demo_env_sel demo_class_facts)
  have a: "make_request_body_converter demo_env demo_factory (PyType UserSchema_cls) [] [] 0
     = (Inr (Some (RequestBodyConverter user_schema)), 0)"
    by (simp add: make_request_body_converter_def make_converter_cases demo_get_schema_class)
  have b: "make_response_body_converter demo_env demo_factory user_schema [] [] 0
     = (Inr (Some (ResponseBodyConverter user_schema)), 0)"
    by (simp add: make_response_body_converter_def make_converter_cases inst)
  from converter_holds_resolved_object [of demo_env demo_factory "PyType UserSchema_cls"
      "[]" "[]" 0 "RequestBodyConverter user_schema" 0] a
  have c: "\<exists>m. marshmallow demo_factory = Some m
      \<and> get_schema demo_env demo_factory (PyType UserSchema_cls) 0 = (Inr user_schema, 0)"
    by auto
  from converter_holds_resolved_object [of demo_env demo_factory user_schema
      "[]" "[]" 0 "ResponseBodyConverter user_schema" 0] b
  have d: "get_schema demo_env demo_factory user_schema 0 = (Inr user_schema, 0)"
    by auto
  show ?thesis
    using a b c d by simp
qed

text \<open>
  The object held need not be an instance of the base schema type, so C8 fails without
  the case distinction: \<^verbatim>\<open>ThreeSchema\<close> is a schema subclass whose \<^verbatim>\<open>__new__\<close> returns
  the integer 3, and both factory methods wrap that integer.
\<close>

theorem converter_holds_non_schema_counterexample:
  "issubclass ThreeSchema_cls (Schema demo_marshmallow)
   \<and> py_call demo_env (PyType ThreeSchema_cls) [] 0 = (Inr (PyInt 3), 0)
   \<and> make_request_body_converter demo_env demo_factory (PyType ThreeSchema_cls) [] [] 0
       = (Inr (Some (RequestBodyConverter (PyInt 3))), 0)
   \<and> make_response_body_converter demo_env demo_factory (PyType ThreeSchema_cls) [] [] 0
       = (Inr (Some (ResponseBodyConverter (PyInt 3))), 0)
   \<and> \<not> py_isinstance (schema (RequestBodyConverter (PyInt 3))) (Schema demo_marshmallow)"
proof -
  have loaded: "marshmallow demo_factory = Some demo_marshmallow"
    by (simp add: demo_env_sel)
  have sub: "issubclass ThreeSchema_cls (Schema demo_marshmallow)"
    by (simp add: demo_env_sel demo_class_facts)
  have res: "get_schema demo_env demo_factory (PyType ThreeSchema_cls) 0 = (Inr (PyInt 3), 0)"
    by (simp add: get_schema_of_class [OF loaded sub] demo_call_class)
  have no: "\<not> py_isinstance (PyInt 3) (Schema demo_marshmallow)"
    by (simp add: py_isinstance_def demo_env_sel demo_class_facts)
  show ?thesis
    using sub no demo_call_class(3) [of 0]
    by (simp add: make_request_body_converter_def make_response_body_converter_def
        make_converter_cases res)
qed

end
